theory Spec2Isabelle
  imports Complex_Main "HOL-Library.Multiset"
begin

section \<open>Tourist anomaly detection: the model\<close>

text \<open>
  A shallow embedding of \<^verbatim>\<open>ai-service/anomaly.py\<close> (class \<^verbatim>\<open>TouristAnomalyDetector\<close>)
  and of the history buffer of \<^verbatim>\<open>ai-service/api.py\<close> (\<^verbatim>\<open>check_anomaly\<close>).

  Conventions of the model:
  \<^item> Python floats are the real numbers: rounding, NaN and the infinities are not modelled.
  \<^item> A timestamp is the number of seconds that \<^verbatim>\<open>pd.to_datetime\<close> reads from the
    timestamp string (\<^verbatim>\<open>YYYY-MM-DD HH:MM:SS\<close>). For strings of that one fixed-width format
    the order of the strings, which \<^verbatim>\<open>sort_values('timestamp')\<close> uses, is the order of
    these numbers.
  \<^item> A DataFrame is the list of its rows, in index order. \<^verbatim>\<open>sort_values\<close> runs pandas'
    default quicksort, which is not stable; the model sorts with the stable \<open>sort_key\<close>.
    The two agree wherever the keys determine the order: when the timestamps of the rows
    of one tourist are pairwise distinct, every sorting algorithm returns the same list
    (lemma \<open>sort_values_determined\<close>). Among rows with equal timestamps the model keeps
    the input order, which the program does only on inputs short enough to be sorted by
    insertion; the properties of the sorted rows are stated for distinct timestamps.
  \<^item> An exception is a value \<open>Inl e\<close> of the result type \<open>error + 'a\<close>.
\<close>

datatype error = ZeroDivisionError | IndexError | NotFittedError | ValueError | NonFinite

subsection \<open>Great-circle distance\<close>

definition radians :: "real \<Rightarrow> real" where
  "radians x = x * pi / 180"

text \<open>\<^verbatim>\<open>math.atan2(y, x)\<close>: the angle of the point \<open>(x, y)\<close>, in \<open>(-pi, pi]\<close>.\<close>

definition atan2 :: "real \<Rightarrow> real \<Rightarrow> real" where
  "atan2 y x =
     (if 0 < x then arctan (y / x)
      else if x < 0 then (if 0 \<le> y then arctan (y / x) + pi else arctan (y / x) - pi)
      else if 0 < y then pi / 2
      else if y < 0 then - (pi / 2)
      else 0)"

text \<open>The quantity \<^verbatim>\<open>a\<close> of \<^verbatim>\<open>haversine_distance\<close>.\<close>

definition hav_a :: "real \<Rightarrow> real \<Rightarrow> real \<Rightarrow> real \<Rightarrow> real" where
  "hav_a lat1 lon1 lat2 lon2 =
     (let lat1_rad = radians lat1;
          lat2_rad = radians lat2;
          delta_lat = radians (lat2 - lat1);
          delta_lon = radians (lon2 - lon1)
      in (sin (delta_lat / 2))\<^sup>2 + cos lat1_rad * cos lat2_rad * (sin (delta_lon / 2))\<^sup>2)"

text \<open>
  \<^verbatim>\<open>math.sqrt\<close> raises on a negative argument; lemma \<open>hav_a_range\<close> below shows that
  both arguments, \<open>a\<close> and \<open>1 - a\<close>, are never negative, so HOL's total \<open>sqrt\<close> is the
  function the code computes.
\<close>

definition haversine_distance :: "real \<Rightarrow> real \<Rightarrow> real \<Rightarrow> real \<Rightarrow> real" where
  "haversine_distance lat1 lon1 lat2 lon2 =
     (let R = 6371000;
          a = hav_a lat1 lon1 lat2 lon2;
          c = 2 * atan2 (sqrt a) (sqrt (1 - a))
      in R * c)"

subsection \<open>Rows, anomaly records and the detector\<close>

text \<open>
  One row of the DataFrame. The detectors read the first four columns; the last two are
  the columns that \<^verbatim>\<open>check_single_point\<close> and the history buffer carry along.
\<close>

record row =
  tourist_id :: int
  lat :: real
  lon :: real
  timestamp :: int
  is_anomaly :: bool
  anomaly_type :: string

text \<open>
  The \<^verbatim>\<open>details\<close> text of an anomaly is an f-string around one number; the model keeps
  the number and which of the three texts it is.
\<close>

datatype details = Stopped_for real | Deviated real | ML_score real

text \<open>
  The anomaly dictionary. Its keys are those of the source with the prefix \<open>an_\<close>, to
  keep them apart from the columns of a row.
\<close>

record anomaly =
  an_tourist_id :: int
  an_timestamp :: int
  an_lat :: real
  an_lon :: real
  an_type :: string
  an_details :: details
  an_confidence :: real

type_synonym matrix = "real list list"

text \<open>
  scikit-learn is outside the repository. A fitted \<^verbatim>\<open>IsolationForest\<close> is the pair of its
  two methods, a fitted \<^verbatim>\<open>StandardScaler\<close> is its \<^verbatim>\<open>transform\<close>; what fitting computes
  is a parameter of the model (\<open>sklearn\<close>). An estimator that was constructed and not
  fitted is \<open>Unfitted\<close>: its methods raise \<^verbatim>\<open>NotFittedError\<close>.
\<close>

record forest =
  predict :: "matrix \<Rightarrow> error + int list"
  decision_function :: "matrix \<Rightarrow> error + real list"

datatype 'a estimator = Unfitted | Fitted 'a

record sklearn =
  scaler_fit :: "matrix \<Rightarrow> error + (matrix \<Rightarrow> error + matrix)"
  forest_fit :: "matrix \<Rightarrow> error + forest"

record detector =
  stop_threshold_minutes :: real
  deviation_threshold_meters :: real
  ml_model :: "forest estimator option"
  scaler :: "(matrix \<Rightarrow> error + matrix) estimator"

definition planned_route :: "(real \<times> real) list" where
  "planned_route =
     [(12.9716, 77.5946), (12.9726, 77.5956), (12.9736, 77.5966),
      (12.9746, 77.5976), (12.9756, 77.5986)]"

text \<open>\<^verbatim>\<open>__init__\<close>; the route is the constant above.\<close>

definition init :: "real \<Rightarrow> real \<Rightarrow> detector" where
  "init stop_minutes deviation_meters =
     \<lparr>stop_threshold_minutes = stop_minutes,
      deviation_threshold_meters = deviation_meters,
      ml_model = None,
      scaler = Unfitted\<rparr>"

subsection \<open>Stop detection\<close>

text \<open>
  The loop \<^verbatim>\<open>for i in range(1, len(tourist_data))\<close> over the pairs of neighbouring rows.
  \<^verbatim>\<open>time_diff / self.stop_threshold_minutes\<close> raises when the threshold is zero.
\<close>

fun stop_loop :: "detector \<Rightarrow> int \<Rightarrow> row list \<Rightarrow> error + anomaly list" where
  "stop_loop d tid (prev_row # current_row # rest) =
     (let distance = haversine_distance (lat prev_row) (lon prev_row)
                       (lat current_row) (lon current_row);
          time_diff = real_of_int (timestamp current_row - timestamp prev_row) / 60
      in if distance < 10 \<and> time_diff \<ge> stop_threshold_minutes d then
           (if stop_threshold_minutes d = 0 then Inl ZeroDivisionError
            else case stop_loop d tid (current_row # rest) of
                   Inl e \<Rightarrow> Inl e
                 | Inr anomalies \<Rightarrow>
                     Inr (\<lparr>an_tourist_id = tid,
                           an_timestamp = timestamp current_row,
                           an_lat = lat current_row,
                           an_lon = lon current_row,
                           an_type = ''stopped_too_long'',
                           an_details = Stopped_for time_diff,
                           an_confidence = min (time_diff / stop_threshold_minutes d) 2\<rparr>
                          # anomalies))
         else stop_loop d tid (current_row # rest))"
| "stop_loop d tid _ = Inr []"

text \<open>
  The rows of the tourist in the order of \<^verbatim>\<open>sort_values('timestamp')\<close>, then the loop.
  For rows with equal timestamps see the conventions above.
\<close>

definition detect_stop_anomaly :: "detector \<Rightarrow> row list \<Rightarrow> int \<Rightarrow> error + anomaly list" where
  "detect_stop_anomaly d df tid =
     (let tourist_data = sort_key timestamp (filter (\<lambda>r. tourist_id r = tid) df)
      in if length tourist_data < 2 then Inr [] else stop_loop d tid tourist_data)"

subsection \<open>Route deviation\<close>

text \<open>
  The inner loop \<^verbatim>\<open>for i in range(len(self.planned_route) - 1)\<close> over the segments of a
  route. The accumulator is \<^verbatim>\<open>min_distance\<close>; \<open>None\<close> is its initial value
  \<^verbatim>\<open>float('inf')\<close>.
\<close>

fun route_min_distance ::
  "real option \<Rightarrow> (real \<times> real) list \<Rightarrow> real \<Rightarrow> real \<Rightarrow> real option" where
  "route_min_distance min_distance (start_point # end_point # rest) la lo =
     (let dist_start = haversine_distance la lo (fst start_point) (snd start_point);
          dist_end = haversine_distance la lo (fst end_point) (snd end_point)
      in route_min_distance
           (Some (case min_distance of
                    None \<Rightarrow> min dist_start dist_end
                  | Some m \<Rightarrow> min m (min dist_start dist_end)))
           (end_point # rest) la lo)"
| "route_min_distance min_distance _ la lo = min_distance"

text \<open>
  The outer loop over the rows. \<^verbatim>\<open>min_distance / self.deviation_threshold_meters\<close> raises
  when the threshold is zero. \<^verbatim>\<open>min_distance\<close> is still infinite after the inner loop
  only for a route without a segment; the reals have no infinity, so the model keeps that
  outcome apart as \<open>NonFinite\<close>. The planned route has four segments, and the outcome
  never arises (lemma \<open>route_min_distance_planned\<close>).
\<close>

fun deviation_loop :: "detector \<Rightarrow> int \<Rightarrow> row list \<Rightarrow> error + anomaly list" where
  "deviation_loop d tid [] = Inr []"
| "deviation_loop d tid (row # rows) =
     (case route_min_distance None planned_route (lat row) (lon row) of
        None \<Rightarrow> Inl NonFinite
      | Some min_distance \<Rightarrow>
          if min_distance > deviation_threshold_meters d then
            (if deviation_threshold_meters d = 0 then Inl ZeroDivisionError
             else case deviation_loop d tid rows of
                    Inl e \<Rightarrow> Inl e
                  | Inr anomalies \<Rightarrow>
                      Inr (\<lparr>an_tourist_id = tid,
                            an_timestamp = timestamp row,
                            an_lat = lat row,
                            an_lon = lon row,
                            an_type = ''route_deviation'',
                            an_details = Deviated min_distance,
                            an_confidence =
                              min (min_distance / deviation_threshold_meters d) 3\<rparr>
                           # anomalies))
          else deviation_loop d tid rows)"

definition detect_route_deviation :: "detector \<Rightarrow> row list \<Rightarrow> int \<Rightarrow> error + anomaly list" where
  "detect_route_deviation d df tid =
     deviation_loop d tid (filter (\<lambda>r. tourist_id r = tid) df)"

subsection \<open>Checking one point\<close>

definition current_point :: "int \<Rightarrow> real \<Rightarrow> real \<Rightarrow> int \<Rightarrow> row" where
  "current_point tid la lo ts =
     \<lparr>tourist_id = tid, lat = la, lon = lo, timestamp = ts,
      is_anomaly = False, anomaly_type = ''unknown''\<rparr>"

definition check_single_point ::
  "detector \<Rightarrow> int \<Rightarrow> real \<Rightarrow> real \<Rightarrow> int \<Rightarrow> row list option \<Rightarrow> error + anomaly list" where
  "check_single_point d tid la lo ts historical_data =
     (case detect_route_deviation d [current_point tid la lo ts] tid of
        Inl e \<Rightarrow> Inl e
      | Inr deviation_anomalies \<Rightarrow>
          (case historical_data of
             None \<Rightarrow> Inr deviation_anomalies
           | Some history \<Rightarrow>
               if length history > 0 then
                 (case detect_stop_anomaly d (history @ [current_point tid la lo ts]) tid of
                    Inl e \<Rightarrow> Inl e
                  | Inr stop_anomalies \<Rightarrow>
                      Inr (deviation_anomalies
                           @ filter (\<lambda>a. \<bar>ts - an_timestamp a\<bar> < 60) stop_anomalies))
               else Inr deviation_anomalies))"

subsection \<open>Pattern model\<close>

text \<open>\<^verbatim>\<open>df['tourist_id'].unique()\<close>: the values in the order of their first appearance.\<close>

fun unique_from :: "'a list \<Rightarrow> 'a list \<Rightarrow> 'a list" where
  "unique_from seen [] = []"
| "unique_from seen (x # xs) =
     (if x \<in> set seen then unique_from seen xs else x # unique_from (x # seen) xs)"

definition unique :: "'a list \<Rightarrow> 'a list" where
  "unique xs = unique_from [] xs"

text \<open>\<^verbatim>\<open>np.mean\<close> of the latitudes and of the longitudes of the route.\<close>

definition route_center :: "real \<times> real" where
  "route_center =
     (sum_list (map fst planned_route) / real (length planned_route),
      sum_list (map snd planned_route) / real (length planned_route))"

text \<open>The inner loop of \<^verbatim>\<open>prepare_ml_features\<close>: one feature row per pair of neighbours.\<close>

fun feature_rows :: "row list \<Rightarrow> matrix" where
  "feature_rows (prev_row # current_row # rest) =
     (let distance = haversine_distance (lat prev_row) (lon prev_row)
                       (lat current_row) (lon current_row);
          time_diff = real_of_int (timestamp current_row - timestamp prev_row) / 60;
          speed = distance / max time_diff 0.1;
          distance_from_center = haversine_distance (lat current_row) (lon current_row)
                                   (fst route_center) (snd route_center)
      in [distance, time_diff, speed, distance_from_center, lat current_row, lon current_row]
         # feature_rows (current_row # rest))"
| "feature_rows _ = []"

definition prepare_ml_features :: "row list \<Rightarrow> matrix" where
  "prepare_ml_features df =
     concat (map (\<lambda>tid. feature_rows
                          (sort_key timestamp (filter (\<lambda>r. tourist_id r = tid) df)))
                 (unique (map tourist_id df)))"

text \<open>
  \<^verbatim>\<open>train_ml_model\<close> returns the detector as the call leaves it, also when it raises.
  \<^verbatim>\<open>fit_transform\<close> is \<^verbatim>\<open>fit\<close>, which resets the scaler before it reads the data, and
  then \<^verbatim>\<open>transform\<close>. The new \<^verbatim>\<open>IsolationForest\<close> is assigned to \<^verbatim>\<open>self.ml_model\<close>
  before its \<^verbatim>\<open>fit\<close> is called.
\<close>

definition train_ml_model :: "sklearn \<Rightarrow> detector \<Rightarrow> row list \<Rightarrow> detector \<times> (error + unit)" where
  "train_ml_model sk d df =
     (let features = prepare_ml_features df
      in if length features = 0 then (d, Inr ())
         else case scaler_fit sk features of
                Inl e \<Rightarrow> (d\<lparr>scaler := Unfitted\<rparr>, Inl e)
              | Inr transform \<Rightarrow>
                  (case transform features of
                     Inl e \<Rightarrow> (d\<lparr>scaler := Fitted transform\<rparr>, Inl e)
                   | Inr features_scaled \<Rightarrow>
                       (let d1 = d\<lparr>scaler := Fitted transform, ml_model := Some Unfitted\<rparr>
                        in case forest_fit sk features_scaled of
                             Inl e \<Rightarrow> (d1, Inl e)
                           | Inr f \<Rightarrow> (d1\<lparr>ml_model := Some (Fitted f)\<rparr>, Inr ()))))"

text \<open>
  The rows that the loops of \<^verbatim>\<open>detect_ml_anomalies\<close> visit, in their order: for every
  tourist, the sorted rows from the second on.
\<close>

definition ml_targets :: "row list \<Rightarrow> (int \<times> row) list" where
  "ml_targets df =
     concat (map (\<lambda>tid. map (Pair tid)
                          (tl (sort_key timestamp (filter (\<lambda>r. tourist_id r = tid) df))))
                 (unique (map tourist_id df)))"

text \<open>
  The body of the two loops, with the counter \<^verbatim>\<open>feature_idx\<close>. The guard bounds the index
  into \<^verbatim>\<open>predictions\<close>; the index into \<^verbatim>\<open>anomaly_scores\<close> has no guard.
\<close>

fun ml_loop :: "int list \<Rightarrow> real list \<Rightarrow> nat \<Rightarrow> (int \<times> row) list \<Rightarrow> error + anomaly list" where
  "ml_loop predictions anomaly_scores feature_idx [] = Inr []"
| "ml_loop predictions anomaly_scores feature_idx ((tid, current_row) # rest) =
     (if feature_idx < length predictions \<and> predictions ! feature_idx = - 1 then
        (if feature_idx < length anomaly_scores then
           (case ml_loop predictions anomaly_scores (Suc feature_idx) rest of
              Inl e \<Rightarrow> Inl e
            | Inr anomalies \<Rightarrow>
                Inr (\<lparr>an_tourist_id = tid,
                      an_timestamp = timestamp current_row,
                      an_lat = lat current_row,
                      an_lon = lon current_row,
                      an_type = ''ml_pattern_anomaly'',
                      an_details = ML_score (anomaly_scores ! feature_idx),
                      an_confidence = \<bar>anomaly_scores ! feature_idx\<bar>\<rparr>
                     # anomalies))
         else Inl IndexError)
      else ml_loop predictions anomaly_scores (Suc feature_idx) rest)"

definition detect_ml_anomalies :: "detector \<Rightarrow> row list \<Rightarrow> error + anomaly list" where
  "detect_ml_anomalies d df =
     (case ml_model d of
        None \<Rightarrow> Inr []
      | Some model \<Rightarrow>
          (let features = prepare_ml_features df
           in if length features = 0 then Inr []
              else case (case scaler d of
                           Unfitted \<Rightarrow> Inl NotFittedError
                         | Fitted transform \<Rightarrow> transform features) of
                     Inl e \<Rightarrow> Inl e
                   | Inr features_scaled \<Rightarrow>
                       (case model of
                          Unfitted \<Rightarrow> Inl NotFittedError
                        | Fitted f \<Rightarrow>
                            (case predict f features_scaled of
                               Inl e \<Rightarrow> Inl e
                             | Inr predictions \<Rightarrow>
                                 (case decision_function f features_scaled of
                                    Inl e \<Rightarrow> Inl e
                                  | Inr anomaly_scores \<Rightarrow>
                                      ml_loop predictions anomaly_scores 0 (ml_targets df))))))"

subsection \<open>Batch analysis\<close>

text \<open>The loop of the rule-based detectors over the tourists; it is outside the \<^verbatim>\<open>try\<close>.\<close>

fun rule_based :: "detector \<Rightarrow> row list \<Rightarrow> int list \<Rightarrow> error + anomaly list" where
  "rule_based d df [] = Inr []"
| "rule_based d df (tid # tids) =
     (case detect_stop_anomaly d df tid of
        Inl e \<Rightarrow> Inl e
      | Inr stop_anomalies \<Rightarrow>
          (case detect_route_deviation d df tid of
             Inl e \<Rightarrow> Inl e
           | Inr deviation_anomalies \<Rightarrow>
               (case rule_based d df tids of
                  Inl e \<Rightarrow> Inl e
                | Inr all_anomalies \<Rightarrow>
                    Inr (stop_anomalies @ deviation_anomalies @ all_anomalies))))"

text \<open>
  \<^verbatim>\<open>analyze_tourist_data\<close>: the \<^verbatim>\<open>except Exception\<close> around training and prediction
  turns both \<open>Inl\<close> outcomes into the list collected so far.
\<close>

definition analyze_tourist_data ::
  "sklearn \<Rightarrow> detector \<Rightarrow> row list \<Rightarrow> bool \<Rightarrow> detector \<times> (error + anomaly list)" where
  "analyze_tourist_data sk d df use_ml =
     (case rule_based d df (unique (map tourist_id df)) of
        Inl e \<Rightarrow> (d, Inl e)
      | Inr all_anomalies \<Rightarrow>
          if use_ml then
            (case train_ml_model sk d df of
               (d', Inl e) \<Rightarrow> (d', Inr all_anomalies)
             | (d', Inr u) \<Rightarrow>
                 (case detect_ml_anomalies d' df of
                    Inl e \<Rightarrow> (d', Inr all_anomalies)
                  | Inr ml_anomalies \<Rightarrow> (d', Inr (all_anomalies @ ml_anomalies))))
          else (d, Inr all_anomalies))"

subsection \<open>The history buffer of the API\<close>

text \<open>
  \<^verbatim>\<open>api.py\<close>: \<^verbatim>\<open>tourist_history\<close> is a dictionary from tourist to the list of the stored
  points, the detector is \<^verbatim>\<open>TouristAnomalyDetector()\<close> with its default thresholds. A
  request is the parsed JSON body, with a well-formed timestamp.
\<close>

type_synonym history = "int \<rightharpoonup> row list"

record request =
  req_tourist_id :: int
  req_lat :: real
  req_lon :: real
  req_timestamp :: int

datatype response = Bad_request | Internal_error | Checked string "anomaly list"

definition api_detector :: detector where
  "api_detector = init 5 200"

text \<open>Lines 120 to 135: append the point, then keep the last 100 (\<^verbatim>\<open>[-100:]\<close>).\<close>

definition store_point :: "history \<Rightarrow> int \<Rightarrow> row \<Rightarrow> history" where
  "store_point tourist_history tid point =
     (let stored = (case tourist_history tid of None \<Rightarrow> [] | Some h \<Rightarrow> h) @ [point]
      in tourist_history(tid \<mapsto>
           (if length stored > 100 then drop (length stored - 100) stored else stored)))"

definition check_anomaly :: "history \<Rightarrow> request \<Rightarrow> history \<times> response" where
  "check_anomaly tourist_history req =
     (let tid = req_tourist_id req; la = req_lat req; lo = req_lon req;
          ts = req_timestamp req
      in if \<not> (- 90 \<le> la \<and> la \<le> 90) then (tourist_history, Bad_request)
         else if \<not> (- 180 \<le> lo \<and> lo \<le> 180) then (tourist_history, Bad_request)
         else case check_single_point api_detector tid la lo ts (tourist_history tid) of
                Inl e \<Rightarrow> (tourist_history, Internal_error)
              | Inr anomalies \<Rightarrow>
                  (store_point tourist_history tid
                     \<lparr>tourist_id = tid, lat = la, lon = lo, timestamp = ts,
                      is_anomaly = (length anomalies > 0),
                      anomaly_type = (case anomalies of [] \<Rightarrow> ''normal''
                                      | a # _ \<Rightarrow> an_type a)\<rparr>,
                   Checked (if anomalies \<noteq> [] then ''anomaly'' else ''normal'') anomalies))"

text \<open>The service handling a sequence of requests, one after the other.\<close>

fun serve :: "history \<Rightarrow> request list \<Rightarrow> history" where
  "serve tourist_history [] = tourist_history"
| "serve tourist_history (req # reqs) = serve (fst (check_anomaly tourist_history req)) reqs"

subsection \<open>The simulated stop\<close>

text \<open>
  \<^verbatim>\<open>data_sim.py\<close>, \<^verbatim>\<open>generate_stop_anomaly\<close> for tourist 2: three points one minute
  apart that lead to the stop, then eight points at the same place, one minute apart,
  which the simulator labels \<^verbatim>\<open>stopped_too_long\<close> (\<^verbatim>\<open>stop_duration = 8\<close>, "exceeds
  5-minute threshold"). The random offsets are fixed: three of 0.00005 degrees for the
  first points, none for the stop.
\<close>

definition stop_scenario :: "row list" where
  "stop_scenario =
     map (\<lambda>(la, lo, ts). \<lparr>tourist_id = 2, lat = la, lon = lo, timestamp = ts,
                           is_anomaly = False, anomaly_type = ''normal''\<rparr>)
       [(12.97265, 77.5956, 0), (12.9726, 77.59565, 60), (12.97255, 77.5956, 120)]
     @ map (\<lambda>ts. \<lparr>tourist_id = 2, lat = 12.9726, lon = 77.5956, timestamp = ts,
                   is_anomaly = True, anomaly_type = ''stopped_too_long''\<rparr>)
       [180, 240, 300, 360, 420, 480, 540, 600]"

subsection \<open>A training run that fails\<close>

text \<open>
  A scikit-learn in which the scaler is fitted (it leaves the features as they are) and
  \<^verbatim>\<open>IsolationForest.fit\<close> raises, as it does on a feature that is not a number. The
  dataset has two points of one tourist at the start of the route, one minute apart.
\<close>

definition failing_fit :: sklearn where
  "failing_fit = \<lparr>scaler_fit = (\<lambda>X. Inr (\<lambda>Y. Inr Y)), forest_fit = (\<lambda>X. Inl ValueError)\<rparr>"

definition two_points :: "row list" where
  "two_points = [current_point 1 12.9716 77.5946 0, current_point 1 12.9716 77.5946 60]"

subsection \<open>Notions to state the buffer property\<close>

text \<open>
  The position and time of a stored point; the points in the buffer of a tourist; and the
  points of the requests of a tourist that pass the validation of the coordinates, in the
  order of the requests.
\<close>

definition point_of :: "row \<Rightarrow> real \<times> real \<times> int" where
  "point_of p = (lat p, lon p, timestamp p)"

definition buffer_points :: "history \<Rightarrow> int \<Rightarrow> (real \<times> real \<times> int) list" where
  "buffer_points th tid = (case th tid of None \<Rightarrow> [] | Some b \<Rightarrow> map point_of b)"

definition stored_points :: "int \<Rightarrow> request list \<Rightarrow> (real \<times> real \<times> int) list" where
  "stored_points tid reqs =
     map (\<lambda>r. (req_lat r, req_lon r, req_timestamp r))
       (filter (\<lambda>r. req_tourist_id r = tid \<and> - 90 \<le> req_lat r \<and> req_lat r \<le> 90
                     \<and> - 180 \<le> req_lon r \<and> req_lon r \<le> 180) reqs)"

section \<open>Properties of the distance\<close>

lemma radians_diff: "radians (x - y) = radians x - radians y"
  by (simp add: radians_def field_simps)

lemma radians_minus: "radians (x - y) = - radians (y - x)"
  by (simp add: radians_def field_simps)

lemma hav_a_sym: "hav_a lat1 lon1 lat2 lon2 = hav_a lat2 lon2 lat1 lon1"
proof -
  have "(sin (radians (lat2 - lat1) / 2))\<^sup>2 = (sin (radians (lat1 - lat2) / 2))\<^sup>2"
    by (simp add: radians_minus [of lat2 lat1])
  moreover have "(sin (radians (lon2 - lon1) / 2))\<^sup>2 = (sin (radians (lon1 - lon2) / 2))\<^sup>2"
    by (simp add: radians_minus [of lon2 lon1])
  ultimately show ?thesis
    by (simp add: hav_a_def Let_def mult.commute)
qed

lemma hav_a_range: "0 \<le> hav_a lat1 lon1 lat2 lon2 \<and> hav_a lat1 lon1 lat2 lon2 \<le> 1"
proof -
  define x where "x = radians lat1"
  define y where "y = radians lat2"
  define u where "u = (sin ((y - x) / 2))\<^sup>2"
  define s where "s = (sin (radians (lon2 - lon1) / 2))\<^sup>2"
  define C where "C = cos (x + y)"
  have u: "0 \<le> u" "u \<le> 1" by (simp_all add: u_def abs_square_le_1)
  have s: "0 \<le> s" "s \<le> 1" by (simp_all add: s_def abs_square_le_1)
  have C: "- 1 \<le> C" "C \<le> 1" by (simp_all add: C_def)
  have cd: "cos (y - x) = 1 - 2 * u"
  proof -
    have "2 * ((y - x) / 2) = y - x" by simp
    then show ?thesis using cos_double_sin [of "(y - x) / 2"] by (simp only: u_def)
  qed
  have "cos x * cos y = (cos (y - x) + C) / 2"
    by (simp add: C_def cos_add cos_diff)
  then have p: "cos x * cos y = (1 - 2 * u + C) / 2"
    by (simp add: cd)
  have a: "hav_a lat1 lon1 lat2 lon2 = u + cos x * cos y * s"
    by (simp add: hav_a_def Let_def u_def s_def x_def y_def radians_diff)
  have a': "hav_a lat1 lon1 lat2 lon2 = u * (1 - s) + s * ((1 + C) / 2)"
    unfolding a p by (simp add: field_simps)
  have t1: "0 \<le> u * (1 - s)" "u * (1 - s) \<le> 1 - s"
    using u s by (simp_all add: mult_left_le_one_le)
  have h: "0 \<le> (1 + C) / 2" "(1 + C) / 2 \<le> 1"
    using C by simp_all
  have t2: "0 \<le> s * ((1 + C) / 2)" "s * ((1 + C) / 2) \<le> s"
    using s h mult_left_le [of "(1 + C) / 2" s] by (simp_all only: mult_nonneg_nonneg)
  show ?thesis unfolding a' using t1 t2 by linarith
qed

lemma atan2_nonneg: "0 \<le> y \<Longrightarrow> 0 \<le> atan2 y x"
proof -
  assume y: "0 \<le> y"
  have "x < 0 \<Longrightarrow> 0 \<le> arctan (y / x) + pi"
    using arctan_lbound [of "y / x"] pi_gt_zero by linarith
  moreover have "0 < x \<Longrightarrow> 0 \<le> arctan (y / x)"
    using y by simp
  ultimately show ?thesis using y by (simp add: atan2_def)
qed

lemma haversine_nonneg: "0 \<le> haversine_distance lat1 lon1 lat2 lon2"
  using hav_a_range [of lat1 lon1 lat2 lon2]
  by (simp add: haversine_distance_def Let_def atan2_nonneg)

lemma haversine_self: "haversine_distance la lo la lo = 0"
  by (simp add: haversine_distance_def hav_a_def Let_def radians_def atan2_def)

lemma haversine_sym:
  "haversine_distance lat1 lon1 lat2 lon2 = haversine_distance lat2 lon2 lat1 lon1"
  by (simp add: haversine_distance_def hav_a_sym [of lat1 lon1 lat2 lon2])

lemma haversine_half_turn: "haversine_distance 0 0 0 180 = 6371000 * pi"
  by (simp add: haversine_distance_def hav_a_def Let_def radians_def atan2_def)

text \<open>
  C9. For every coordinate \<open>a\<close>, \<open>haversine_distance(a, a) = 0\<close>, and for every pair of
  coordinates \<open>a\<close>, \<open>b\<close>, \<open>haversine_distance(a, b) = haversine_distance(b, a)\<close>: the
  distance is zero on the diagonal and symmetric.
\<close>

theorem haversine_distance_zero_and_symmetric:
  "haversine_distance la lo la lo = 0
   \<and> haversine_distance lat1 lon1 lat2 lon2 = haversine_distance lat2 lon2 lat1 lon1"
proof
  show "haversine_distance la lo la lo = 0"
    by (simp add: haversine_distance_def hav_a_def Let_def radians_def atan2_def)
  show "haversine_distance lat1 lon1 lat2 lon2 = haversine_distance lat2 lon2 lat1 lon1"
    by (simp add: haversine_distance_def hav_a_sym [of lat1 lon1 lat2 lon2])
qed

section \<open>The rule-based detectors\<close>

subsection \<open>Stop detection\<close>

lemma stop_loop_pairs:
  assumes "stop_threshold_minutes d \<noteq> 0"
  shows "stop_loop d tid ps =
     Inr (map (\<lambda>(prev, cur).
            \<lparr>an_tourist_id = tid, an_timestamp = timestamp cur, an_lat = lat cur,
             an_lon = lon cur, an_type = ''stopped_too_long'',
             an_details = Stopped_for (real_of_int (timestamp cur - timestamp prev) / 60),
             an_confidence = min (real_of_int (timestamp cur - timestamp prev) / 60
                                   / stop_threshold_minutes d) 2\<rparr>)
          (filter (\<lambda>(prev, cur).
              haversine_distance (lat prev) (lon prev) (lat cur) (lon cur) < 10
              \<and> real_of_int (timestamp cur - timestamp prev) / 60 \<ge> stop_threshold_minutes d)
            (zip ps (tl ps))))"
proof (induction ps rule: induct_list012)
  case 1
  show ?case by simp
next
  case (2 x)
  show ?case by simp
next
  case (3 prev cur rest)
  show ?case
    using assms by (simp add: Let_def "3.IH"(2) del: stop_loop.simps(1) add: stop_loop.simps(1) [of d tid prev cur rest])
qed

text \<open>
  With pairwise distinct timestamps there is one sorted arrangement of the rows, so
  whatever algorithm \<^verbatim>\<open>sort_values\<close> runs returns the list that \<open>sort_key\<close> returns.
\<close>

lemma sort_values_determined:
  assumes "mset ys = mset xs"
    and "distinct (map timestamp xs)"
    and "sorted (map timestamp ys)"
  shows "ys = sort_key timestamp xs"
proof -
  have "inj_on timestamp (set xs)"
    using assms(2) by (simp add: distinct_map)
  with assms(1) [symmetric] have "sort_key timestamp xs = ys"
    using assms(3) by (rule sort_key_inj_key_eq)
  then show ?thesis by simp
qed



lemma stop_loop_types:
  "stop_loop d tid ps = Inr anomalies \<Longrightarrow> \<forall>a \<in> set anomalies. an_type a = ''stopped_too_long''"
proof (induction ps arbitrary: anomalies rule: induct_list012)
  case 1
  then show ?case by simp
next
  case (2 x)
  then show ?case by simp
next
  case (3 prev cur rest)
  show ?case
    using "3.prems" "3.IH"(2)
    by (auto simp add: Let_def split: if_splits sum.splits)
qed

lemma detect_stop_anomaly_types:
  "detect_stop_anomaly d df tid = Inr anomalies \<Longrightarrow> \<forall>a \<in> set anomalies. an_type a = ''stopped_too_long''"
  using stop_loop_types [of d tid _ anomalies]
  by (auto simp add: detect_stop_anomaly_def Let_def split: if_splits)

text \<open>
  C3. The claim: for an entity with 3 normal pings followed by 8 pings that stay within
  5 meters of each other, one minute apart, and a threshold of 5 minutes, the stop detector
  emits stop anomalies beginning at the pair whose cumulative dwell crosses 5 minutes. The
  detector compares each ping with its predecessor only: every gap is one minute, and on
  the simulated stop it reports nothing.
\<close>

theorem stop_scenario_undetected:
  "detect_stop_anomaly (init 5 200) stop_scenario 2 = Inr []"
proof -
  have f: "filter (\<lambda>r. tourist_id r = 2) stop_scenario = stop_scenario"
    by (simp add: stop_scenario_def)
  have "sorted (map timestamp stop_scenario)"
    by (simp add: stop_scenario_def)
  then have s: "sort_key timestamp stop_scenario = stop_scenario"
    by (rule sort_key_id_if_sorted)
  have "stop_loop (init 5 200) 2 stop_scenario = Inr []"
    by (simp add: stop_scenario_def init_def)
  then show ?thesis
    by (simp add: detect_stop_anomaly_def f s)
qed

lemma haversine_half_turn_far:
  "\<not> haversine_distance 0 0 0 180 < 10" "\<not> haversine_distance 0 180 0 0 < 10"
proof -
  have "10 \<le> (6371000::real) * pi" using pi_ge_two by simp
  then show "\<not> haversine_distance 0 0 0 180 < 10"
    by (simp add: haversine_half_turn)
  then show "\<not> haversine_distance 0 180 0 0 < 10"
    by (simp add: haversine_sym [of 0 180 0 0])
qed

text \<open>
  C10 as stated fails. The stop detector is not invariant under every permutation of the
  rows: the sort reads the timestamps only, so on these three rows the two with the same
  timestamp keep the order they have in the input, and the neighbouring pairs differ.
\<close>

theorem detect_stop_anomaly_permutation_counterexample:
  "mset [current_point 1 0 0 0, current_point 1 0 180 600, current_point 1 0 0 600]
     = mset [current_point 1 0 0 0, current_point 1 0 0 600, current_point 1 0 180 600]
   \<and> detect_stop_anomaly (init 5 200)
        [current_point 1 0 0 0, current_point 1 0 180 600, current_point 1 0 0 600] 1
     \<noteq> detect_stop_anomaly (init 5 200)
        [current_point 1 0 0 0, current_point 1 0 0 600, current_point 1 0 180 600] 1"
  by (simp add: detect_stop_anomaly_def current_point_def init_def haversine_self
      haversine_half_turn_far)

text \<open>
  C10 (amended). For every dataset and entity whose rows have pairwise distinct timestamps,
  \<open>detect_stop_anomaly\<close> returns the same list of anomalies for any permutation of the
  rows: it sorts the entity's rows by timestamp before it looks at neighbouring pairs.
\<close>

theorem detect_stop_anomaly_permutation_distinct:
  assumes "mset df' = mset df"
    and "distinct (map timestamp (filter (\<lambda>r. tourist_id r = tid) df))"
  shows "detect_stop_anomaly d df' tid = detect_stop_anomaly d df tid"
proof -
  have m: "mset (filter (\<lambda>r. tourist_id r = tid) df') = mset (filter (\<lambda>r. tourist_id r = tid) df)"
    using assms(1) by (simp add: mset_filter)
  then have "set (filter (\<lambda>r. tourist_id r = tid) df') = set (filter (\<lambda>r. tourist_id r = tid) df)"
    by (rule mset_eq_setD)
  moreover have "inj_on timestamp (set (filter (\<lambda>r. tourist_id r = tid) df))"
    using assms(2) by (simp add: distinct_map)
  ultimately have "inj_on timestamp (set (filter (\<lambda>r. tourist_id r = tid) df'))"
    by simp
  with m have "sort_key timestamp (filter (\<lambda>r. tourist_id r = tid) df')
             = sort_key timestamp (filter (\<lambda>r. tourist_id r = tid) df)"
    by (rule sort_key_eq_sort_key)
  then show ?thesis
    by (simp add: detect_stop_anomaly_def)
qed

theorem detect_stop_anomaly_permutation_distinct_witness:
  "detect_stop_anomaly (init 5 200)
     [current_point 1 0 0 600, current_point 1 0 180 900, current_point 1 0 0 0] 1
   = detect_stop_anomaly (init 5 200)
     [current_point 1 0 0 0, current_point 1 0 0 600, current_point 1 0 180 900] 1"
  using detect_stop_anomaly_permutation_distinct
    [of "[current_point 1 0 0 600, current_point 1 0 180 900, current_point 1 0 0 0]"
        "[current_point 1 0 0 0, current_point 1 0 0 600, current_point 1 0 180 900]"
        1 "init 5 200"]
  by (simp add: current_point_def)

subsection \<open>Route deviation\<close>

lemma route_min_distance_Some:
  "route_min_distance (Some m) (p # rest) la lo =
     Some (if rest = [] then m
           else min m (Min ((\<lambda>w. haversine_distance la lo (fst w) (snd w)) ` set (p # rest))))"
proof (induction rest arbitrary: m p)
  case Nil
  show ?case by simp
next
  case (Cons q rest)
  show ?case
    by (cases "rest = []") (simp_all add: Cons.IH Let_def min.assoc min.left_commute)
qed

lemma route_min_distance_None:
  "route_min_distance None (p # q # rest) la lo =
     Some (Min ((\<lambda>w. haversine_distance la lo (fst w) (snd w)) ` set (p # q # rest)))"
  by (cases "rest = []") (simp_all add: route_min_distance_Some Let_def min.assoc)

lemma route_min_distance_planned:
  "route_min_distance None planned_route la lo =
     Some (Min ((\<lambda>w. haversine_distance la lo (fst w) (snd w)) ` set planned_route))"
  unfolding planned_route_def by (rule route_min_distance_None)

lemma min_distance_at_waypoint:
  assumes "(la, lo) \<in> set planned_route"
  shows "Min ((\<lambda>w. haversine_distance la lo (fst w) (snd w)) ` set planned_route) = 0"
proof (rule antisym)
  have "haversine_distance la lo (fst (la, lo)) (snd (la, lo))
          \<in> (\<lambda>w. haversine_distance la lo (fst w) (snd w)) ` set planned_route"
    using assms by (rule imageI)
  then have "0 \<in> (\<lambda>w. haversine_distance la lo (fst w) (snd w)) ` set planned_route"
    by (simp add: haversine_self)
  then show "Min ((\<lambda>w. haversine_distance la lo (fst w) (snd w)) ` set planned_route) \<le> 0"
    by (simp add: Min_le)
  have "planned_route \<noteq> []" by (simp add: planned_route_def)
  then show "0 \<le> Min ((\<lambda>w. haversine_distance la lo (fst w) (snd w)) ` set planned_route)"
    by (simp add: haversine_nonneg)
qed

lemma deviation_loop_rows:
  assumes "deviation_threshold_meters d \<noteq> 0"
  shows "deviation_loop d tid rows =
     Inr (map (\<lambda>r. let m = Min ((\<lambda>w. haversine_distance (lat r) (lon r) (fst w) (snd w))
                                  ` set planned_route)
                    in \<lparr>an_tourist_id = tid, an_timestamp = timestamp r, an_lat = lat r,
                        an_lon = lon r, an_type = ''route_deviation'',
                        an_details = Deviated m,
                        an_confidence = min (m / deviation_threshold_meters d) 3\<rparr>)
          (filter (\<lambda>r. Min ((\<lambda>w. haversine_distance (lat r) (lon r) (fst w) (snd w))
                              ` set planned_route) > deviation_threshold_meters d)
             rows))"
proof (induction rows)
  case Nil
  show ?case by simp
next
  case (Cons r rows)
  show ?case using assms by (simp add: route_min_distance_planned Cons.IH Let_def)
qed


lemma start_point_on_route: "(12.9716, 77.5946) \<in> set planned_route"
  by (simp add: planned_route_def)



lemma deviation_loop_types:
  "deviation_loop d tid rows = Inr anomalies \<Longrightarrow> \<forall>a \<in> set anomalies. an_type a = ''route_deviation''"
proof (induction rows arbitrary: anomalies)
  case Nil
  then show ?case by simp
next
  case (Cons r rows)
  show ?case
    using Cons.prems Cons.IH
    by (auto split: if_splits sum.splits option.splits)
qed

lemma detect_route_deviation_types:
  "detect_route_deviation d df tid = Inr anomalies \<Longrightarrow> \<forall>a \<in> set anomalies. an_type a = ''route_deviation''"
  unfolding detect_route_deviation_def by (rule deviation_loop_types)

lemma detect_route_deviation_waypoint:
  assumes "(la, lo) \<in> set planned_route" and "0 \<le> deviation_threshold_meters d"
  shows "detect_route_deviation d [current_point tid la lo ts] tid = Inr []"
  using assms
  by (simp add: detect_route_deviation_def current_point_def route_min_distance_planned
      min_distance_at_waypoint)

subsection \<open>Checking one point\<close>

lemma check_single_point_Inr:
  assumes "check_single_point d tid la lo ts historical_data = Inr anomalies"
  shows "\<exists>dev stops.
           detect_route_deviation d [current_point tid la lo ts] tid = Inr dev
         \<and> anomalies = dev @ stops
         \<and> (\<forall>a \<in> set dev. an_type a = ''route_deviation'')
         \<and> (\<forall>a \<in> set stops. an_type a = ''stopped_too_long'' \<and> \<bar>ts - an_timestamp a\<bar> < 60)
         \<and> (historical_data = None \<or> historical_data = Some [] \<longrightarrow> stops = [])"
proof (cases "detect_route_deviation d [current_point tid la lo ts] tid")
  case (Inl e)
  then show ?thesis using assms by (simp add: check_single_point_def)
next
  case (Inr dev)
  have devt: "\<forall>a \<in> set dev. an_type a = ''route_deviation''"
    using Inr by (rule detect_route_deviation_types)
  show ?thesis
  proof (cases "historical_data = None \<or> historical_data = Some []")
    case True
    then have "anomalies = dev @ []"
      using assms Inr by (auto simp add: check_single_point_def)
    then show ?thesis using devt Inr
      by - (rule exI [of _ dev], rule exI [of _ "[]"], simp)
  next
    case False
    then obtain h where h: "historical_data = Some h" "h \<noteq> []" by auto
    show ?thesis
    proof (cases "detect_stop_anomaly d (h @ [current_point tid la lo ts]) tid")
      case (Inl e)
      then show ?thesis using assms Inr h by (simp add: check_single_point_def)
    next
      case st: (Inr stops)
      have a: "anomalies = dev @ filter (\<lambda>a. \<bar>ts - an_timestamp a\<bar> < 60) stops"
        using assms Inr h st by (simp add: check_single_point_def)
      have "\<forall>a \<in> set stops. an_type a = ''stopped_too_long''"
        using st by (rule detect_stop_anomaly_types)
      then have "\<forall>a \<in> set (filter (\<lambda>a. \<bar>ts - an_timestamp a\<bar> < 60) stops).
                   an_type a = ''stopped_too_long'' \<and> \<bar>ts - an_timestamp a\<bar> < 60"
        by simp
      then show ?thesis using a devt False Inr
        by - (rule exI [of _ dev],
              rule exI [of _ "filter (\<lambda>a. \<bar>ts - an_timestamp a\<bar> < 60) stops"], auto)
    qed
  qed
qed

lemma check_single_point_example:
  "check_single_point (init 5 200) 1 12.9716 77.5946 360
     (Some [current_point 1 12.9716 77.5946 0])
   = Inr [\<lparr>an_tourist_id = 1, an_timestamp = 360, an_lat = 12.9716, an_lon = 77.5946,
           an_type = ''stopped_too_long'', an_details = Stopped_for 6,
           an_confidence = 6 / 5\<rparr>]"
proof -
  have dv: "detect_route_deviation (init 5 200) [current_point 1 12.9716 77.5946 360] 1 = Inr []"
    using start_point_on_route by (rule detect_route_deviation_waypoint) (simp add: init_def)
  have st: "detect_stop_anomaly (init 5 200)
              ([current_point 1 12.9716 77.5946 0] @ [current_point 1 12.9716 77.5946 360]) 1
            = Inr [\<lparr>an_tourist_id = 1, an_timestamp = 360, an_lat = 12.9716, an_lon = 77.5946,
                    an_type = ''stopped_too_long'', an_details = Stopped_for 6,
                    an_confidence = 6 / 5\<rparr>]"
    by (simp add: detect_stop_anomaly_def current_point_def init_def haversine_self)
  show ?thesis
    unfolding check_single_point_def dv using st by simp
qed

text \<open>
  C4. For every call of \<open>check_single_point\<close>: if the history is \<open>None\<close> or empty, no
  stop record is returned, and every stop record that is returned has a timestamp strictly
  within 60 seconds of the timestamp of the queried ping.
\<close>

theorem check_single_point_stop_window:
  assumes "check_single_point d tid la lo ts historical_data = Inr anomalies"
  shows "(historical_data = None \<or> historical_data = Some [] \<longrightarrow>
            (\<forall>a \<in> set anomalies. an_type a \<noteq> ''stopped_too_long''))
       \<and> (\<forall>a \<in> set anomalies. an_type a = ''stopped_too_long'' \<longrightarrow>
            \<bar>ts - an_timestamp a\<bar> < 60)"
proof -
  obtain dev stops where a: "anomalies = dev @ stops"
    and dv: "\<forall>a \<in> set dev. an_type a = ''route_deviation''"
    and st: "\<forall>a \<in> set stops. an_type a = ''stopped_too_long'' \<and> \<bar>ts - an_timestamp a\<bar> < 60"
    and e: "historical_data = None \<or> historical_data = Some [] \<longrightarrow> stops = []"
    using check_single_point_Inr [OF assms] by blast
  have ne: "\<forall>a \<in> set dev. an_type a \<noteq> ''stopped_too_long''"
    using dv by simp
  show ?thesis unfolding a using ne st e by auto
qed

theorem check_single_point_stop_window_witness:
  "check_single_point (init 5 200) 1 12.9716 77.5946 360
     (Some [current_point 1 12.9716 77.5946 0])
   = Inr [\<lparr>an_tourist_id = 1, an_timestamp = 360, an_lat = 12.9716, an_lon = 77.5946,
           an_type = ''stopped_too_long'', an_details = Stopped_for 6,
           an_confidence = 6 / 5\<rparr>]
   \<and> \<bar>360 - an_timestamp \<lparr>an_tourist_id = 1, an_timestamp = 360, an_lat = 12.9716,
           an_lon = 77.5946, an_type = ''stopped_too_long'', an_details = Stopped_for 6,
           an_confidence = 6 / 5\<rparr>\<bar> < (60::int)"
  using check_single_point_stop_window [OF check_single_point_example] check_single_point_example
  by simp

text \<open>
  C8. For every call of \<open>check_single_point\<close>, the deviation records returned are exactly
  those of the deviation detector on the lone new ping, and they are the same for every
  value of the history argument.
\<close>

theorem check_single_point_deviation:
  assumes "check_single_point d tid la lo ts historical_data = Inr anomalies"
  shows "detect_route_deviation d [current_point tid la lo ts] tid
           = Inr (filter (\<lambda>a. an_type a = ''route_deviation'') anomalies)
       \<and> (\<forall>h anomalies'. check_single_point d tid la lo ts h = Inr anomalies' \<longrightarrow>
            filter (\<lambda>a. an_type a = ''route_deviation'') anomalies'
            = filter (\<lambda>a. an_type a = ''route_deviation'') anomalies)"
proof -
  have main: "detect_route_deviation d [current_point tid la lo ts] tid
           = Inr (filter (\<lambda>a. an_type a = ''route_deviation'') as)"
    if r: "check_single_point d tid la lo ts h = Inr as" for h as
  proof -
    obtain dev stops where dev: "detect_route_deviation d [current_point tid la lo ts] tid = Inr dev"
      and a: "as = dev @ stops"
      and dv: "\<forall>a \<in> set dev. an_type a = ''route_deviation''"
      and st: "\<forall>a \<in> set stops. an_type a = ''stopped_too_long'' \<and> \<bar>ts - an_timestamp a\<bar> < 60"
      using check_single_point_Inr [OF r] by blast
    have "filter (\<lambda>a. an_type a = ''route_deviation'') dev = dev"
      using dv by simp
    moreover have "filter (\<lambda>a. an_type a = ''route_deviation'') stops = []"
      using st by (simp add: filter_empty_conv)
    ultimately show ?thesis using dev a by simp
  qed
  have "filter (\<lambda>a. an_type a = ''route_deviation'') anomalies'
            = filter (\<lambda>a. an_type a = ''route_deviation'') anomalies"
    if "check_single_point d tid la lo ts h = Inr anomalies'" for h anomalies'
    using main [OF that] main [OF assms] by simp
  then show ?thesis using main [OF assms] by blast
qed

theorem check_single_point_deviation_witness:
  "check_single_point (init 5 200) 1 12.9716 77.5946 360
     (Some [current_point 1 12.9716 77.5946 0])
   = Inr [\<lparr>an_tourist_id = 1, an_timestamp = 360, an_lat = 12.9716, an_lon = 77.5946,
           an_type = ''stopped_too_long'', an_details = Stopped_for 6,
           an_confidence = 6 / 5\<rparr>]
   \<and> detect_route_deviation (init 5 200) [current_point 1 12.9716 77.5946 360] 1 = Inr []"
  using check_single_point_deviation [OF check_single_point_example] check_single_point_example
  by simp

section \<open>The pattern model and the batch analysis\<close>

lemma set_unique_from: "set (unique_from seen xs) = set xs - set seen"
  by (induction xs arbitrary: seen) auto

lemma set_unique: "set (unique xs) = set xs"
  by (simp add: unique_def set_unique_from)

lemma ml_loop_types:
  "ml_loop predictions anomaly_scores i targets = Inr anomalies \<Longrightarrow>
   \<forall>a \<in> set anomalies. an_type a = ''ml_pattern_anomaly''"
proof (induction targets arbitrary: i anomalies)
  case Nil
  then show ?case by simp
next
  case (Cons t targets)
  obtain tid r where t: "t = (tid, r)" by (cases t)
  show ?case
    using Cons.prems Cons.IH unfolding t
    by (auto split: if_splits sum.splits)
qed

lemma detect_ml_anomalies_types:
  "detect_ml_anomalies d df = Inr anomalies \<Longrightarrow>
   \<forall>a \<in> set anomalies. an_type a = ''ml_pattern_anomaly''"
  using ml_loop_types
  by (auto simp add: detect_ml_anomalies_def Let_def
      split: option.splits if_splits sum.splits estimator.splits)

lemma detect_ml_anomalies_untrained:
  "ml_model d = None \<Longrightarrow> detect_ml_anomalies d df = Inr []"
  by (simp add: detect_ml_anomalies_def)

lemma detect_ml_anomalies_no_features:
  "prepare_ml_features df = [] \<Longrightarrow> detect_ml_anomalies d df = Inr []"
  by (simp add: detect_ml_anomalies_def split: option.splits)

lemma rule_based_contains:
  "rule_based d df tids = Inr rules \<Longrightarrow> tid \<in> set tids \<Longrightarrow>
   \<exists>s v. detect_stop_anomaly d df tid = Inr s \<and> detect_route_deviation d df tid = Inr v
        \<and> set s \<union> set v \<subseteq> set rules"
proof (induction tids arbitrary: rules)
  case Nil
  then show ?case by simp
next
  case (Cons t tids)
  from Cons.prems(1) obtain s v rest where
    s: "detect_stop_anomaly d df t = Inr s" and v: "detect_route_deviation d df t = Inr v"
    and rest: "rule_based d df tids = Inr rest" and r: "rules = s @ v @ rest"
    by (auto split: sum.splits)
  show ?case
  proof (cases "tid = t")
    case True
    then show ?thesis using s v r by auto
  next
    case False
    then have "tid \<in> set tids" using Cons.prems(2) by simp
    from Cons.IH [OF rest this] show ?thesis unfolding r by auto
  qed
qed

lemma analyze_tourist_data_ml:
  assumes "rule_based d df (unique (map tourist_id df)) = Inr rules"
  shows "snd (analyze_tourist_data sk d df True) =
           Inr (rules @ (case snd (train_ml_model sk d df) of
                           Inl e \<Rightarrow> []
                         | Inr u \<Rightarrow> (case detect_ml_anomalies (fst (train_ml_model sk d df)) df of
                                      Inl e \<Rightarrow> [] | Inr ml \<Rightarrow> ml)))"
  using assms
  by (cases "train_ml_model sk d df")
     (simp add: analyze_tourist_data_def split: sum.splits)

lemma deviation_loop_on_route:
  assumes "\<forall>r \<in> set rows. (lat r, lon r) \<in> set planned_route"
    and "0 \<le> deviation_threshold_meters d"
  shows "deviation_loop d tid rows = Inr []"
  using assms
  by (induction rows) (simp_all add: route_min_distance_planned min_distance_at_waypoint)

lemma two_points_rules:
  "rule_based (init 5 200) two_points (unique (map tourist_id two_points)) = Inr []"
proof -
  have u: "unique (map tourist_id two_points) = [1]"
    by (simp add: two_points_def current_point_def unique_def)
  have s: "detect_stop_anomaly (init 5 200) two_points 1 = Inr []"
    by (simp add: detect_stop_anomaly_def two_points_def current_point_def init_def)
  have v: "detect_route_deviation (init 5 200) two_points 1 = Inr []"
    unfolding detect_route_deviation_def
    by (rule deviation_loop_on_route)
       (simp_all add: two_points_def current_point_def init_def planned_route_def)
  show ?thesis by (simp add: u s v)
qed

lemma two_points_features: "prepare_ml_features two_points \<noteq> []"
  by (simp add: prepare_ml_features_def two_points_def current_point_def unique_def Let_def)

lemma two_points_training:
  "train_ml_model failing_fit (init 5 200) two_points =
     ((init 5 200)\<lparr>scaler := Fitted (\<lambda>Y. Inr Y), ml_model := Some Unfitted\<rparr>, Inl ValueError)"
  using two_points_features
  by (simp add: train_ml_model_def failing_fit_def Let_def)

text \<open>
  C5. The claim: \<open>detect_ml_anomalies\<close> called before any successful fit, or on input
  without feature rows, returns an empty list and never raises. It holds while
  \<open>ml_model\<close> is \<open>None\<close> and when there are no feature rows (the two lemmas
  \<open>detect_ml_anomalies_untrained\<close> and \<open>detect_ml_anomalies_no_features\<close>). But
  \<open>train_ml_model\<close> assigns the new forest before it fits it: after a training whose fit
  raised, no fit has succeeded, \<open>ml_model\<close> is not \<open>None\<close>, and the prediction raises.
\<close>

theorem detect_ml_anomalies_after_failed_fit:
  "snd (train_ml_model failing_fit (init 5 200) two_points) = Inl ValueError
   \<and> detect_ml_anomalies (fst (train_ml_model failing_fit (init 5 200) two_points)) two_points
       = Inl NotFittedError"
  using two_points_features
  by (simp add: two_points_training detect_ml_anomalies_def Let_def)

text \<open>
  C6. For every input batch, \<open>analyze_tourist_data\<close> with \<open>use_ml = True\<close> never
  propagates an exception raised during training or prediction: an exception that leaves
  it is one of the rule-based detectors. When these return, the result starts with all
  their stop and deviation records, followed by pattern records only, and by nothing when
  training or prediction raised.
\<close>

theorem analyze_tourist_data_ml_failure_contained:
  "(\<forall>e. snd (analyze_tourist_data sk d df True) = Inl e \<longrightarrow>
         rule_based d df (unique (map tourist_id df)) = Inl e)
   \<and> (\<forall>rules. rule_based d df (unique (map tourist_id df)) = Inr rules \<longrightarrow>
         (\<forall>r \<in> set df. \<exists>s v.
              detect_stop_anomaly d df (tourist_id r) = Inr s
            \<and> detect_route_deviation d df (tourist_id r) = Inr v
            \<and> set s \<union> set v \<subseteq> set rules)
       \<and> (\<exists>ml. snd (analyze_tourist_data sk d df True) = Inr (rules @ ml)
              \<and> (\<forall>a \<in> set ml. an_type a = ''ml_pattern_anomaly'')
              \<and> ((\<exists>e. snd (train_ml_model sk d df) = Inl e
                       \<or> detect_ml_anomalies (fst (train_ml_model sk d df)) df = Inl e)
                  \<longrightarrow> ml = [])))"
proof (intro conjI allI impI)
  fix e
  assume a: "snd (analyze_tourist_data sk d df True) = Inl e"
  show "rule_based d df (unique (map tourist_id df)) = Inl e"
  proof (cases "rule_based d df (unique (map tourist_id df))")
    case (Inl e')
    then show ?thesis using a by (simp add: analyze_tourist_data_def)
  next
    case (Inr rules)
    then show ?thesis using a analyze_tourist_data_ml [OF Inr, of sk] by simp
  qed
next
  fix rules
  assume r: "rule_based d df (unique (map tourist_id df)) = Inr rules"
  show "\<forall>r \<in> set df. \<exists>s v.
              detect_stop_anomaly d df (tourist_id r) = Inr s
            \<and> detect_route_deviation d df (tourist_id r) = Inr v
            \<and> set s \<union> set v \<subseteq> set rules"
  proof
    fix x
    assume "x \<in> set df"
    then have "tourist_id x \<in> set (unique (map tourist_id df))"
      by (simp add: set_unique)
    with r show "\<exists>s v.
              detect_stop_anomaly d df (tourist_id x) = Inr s
            \<and> detect_route_deviation d df (tourist_id x) = Inr v
            \<and> set s \<union> set v \<subseteq> set rules"
      by (rule rule_based_contains)
  qed
  define ml where "ml = (case snd (train_ml_model sk d df) of
                           Inl e \<Rightarrow> []
                         | Inr u \<Rightarrow> (case detect_ml_anomalies (fst (train_ml_model sk d df)) df of
                                      Inl e \<Rightarrow> [] | Inr ml \<Rightarrow> ml))"
  have res: "snd (analyze_tourist_data sk d df True) = Inr (rules @ ml)"
    unfolding ml_def by (rule analyze_tourist_data_ml [OF r])
  have ty: "\<forall>a \<in> set ml. an_type a = ''ml_pattern_anomaly''"
  proof (cases "detect_ml_anomalies (fst (train_ml_model sk d df)) df")
    case (Inl e)
    then show ?thesis unfolding ml_def by (simp split: sum.splits)
  next
    case (Inr found)
    then have "\<forall>a \<in> set found. an_type a = ''ml_pattern_anomaly''"
      by (rule detect_ml_anomalies_types)
    then show ?thesis unfolding ml_def Inr by (simp split: sum.splits)
  qed
  have fail: "(\<exists>e. snd (train_ml_model sk d df) = Inl e
                       \<or> detect_ml_anomalies (fst (train_ml_model sk d df)) df = Inl e)
                  \<longrightarrow> ml = []"
    unfolding ml_def by (auto split: sum.splits)
  show "\<exists>ml. snd (analyze_tourist_data sk d df True) = Inr (rules @ ml)
              \<and> (\<forall>a \<in> set ml. an_type a = ''ml_pattern_anomaly'')
              \<and> ((\<exists>e. snd (train_ml_model sk d df) = Inl e
                       \<or> detect_ml_anomalies (fst (train_ml_model sk d df)) df = Inl e)
                  \<longrightarrow> ml = [])"
    using res ty fail by blast
qed

theorem analyze_tourist_data_ml_failure_contained_witness:
  "snd (train_ml_model failing_fit (init 5 200) two_points) = Inl ValueError
   \<and> snd (analyze_tourist_data failing_fit (init 5 200) two_points True) = Inr []"
  using analyze_tourist_data_ml_failure_contained [of failing_fit "init 5 200" two_points]
    two_points_rules two_points_training
  by auto

section \<open>The history buffer\<close>

lemma drop_last_append:
  "drop (length (drop (length xs - n) xs @ ys) - n) (drop (length xs - n) xs @ ys)
     = drop (length (xs @ ys) - n) (xs @ ys)"
proof (cases "length xs \<le> n")
  case True
  then show ?thesis by simp
next
  case False
  then have l: "length (drop (length xs - n) xs) = n" by simp
  have "drop (length (drop (length xs - n) xs @ ys) - n) (drop (length xs - n) xs @ ys)
        = drop (length ys) (drop (length xs - n) xs @ ys)"
    by (simp only: length_append l) simp
  also have "\<dots> = drop (length ys + (length xs - n)) (xs @ ys)"
    using False by (simp add: drop_append)
  also have "length ys + (length xs - n) = length (xs @ ys) - n"
    using False by simp
  finally show ?thesis .
qed

lemma check_single_point_returns:
  assumes "stop_threshold_minutes d \<noteq> 0" and "deviation_threshold_meters d \<noteq> 0"
  shows "\<exists>anomalies. check_single_point d tid la lo ts historical_data = Inr anomalies"
proof -
  have s: "\<exists>r. detect_stop_anomaly d df tid = Inr r" for df
    using stop_loop_pairs [OF assms(1)]
    by (simp add: detect_stop_anomaly_def Let_def del: stop_loop.simps)
  obtain dev where dev: "detect_route_deviation d [current_point tid la lo ts] tid = Inr dev"
    using deviation_loop_rows [OF assms(2)] by (simp add: detect_route_deviation_def)
  show ?thesis
  proof (cases historical_data)
    case None
    then show ?thesis by (simp add: check_single_point_def dev)
  next
    case (Some h)
    obtain r where "detect_stop_anomaly d (h @ [current_point tid la lo ts]) tid = Inr r"
      using s by blast
    then show ?thesis using Some by (simp add: check_single_point_def dev)
  qed
qed

lemma check_anomaly_store:
  "\<exists>p. tourist_id p = req_tourist_id req
       \<and> (lat p, lon p, timestamp p) = (req_lat req, req_lon req, req_timestamp req)
       \<and> fst (check_anomaly th req) =
           (if - 90 \<le> req_lat req \<and> req_lat req \<le> 90
               \<and> - 180 \<le> req_lon req \<and> req_lon req \<le> 180
            then store_point th (req_tourist_id req) p else th)"
proof -
  obtain anomalies where a:
    "check_single_point api_detector (req_tourist_id req) (req_lat req) (req_lon req)
       (req_timestamp req) (th (req_tourist_id req)) = Inr anomalies"
  proof -
    have "stop_threshold_minutes api_detector \<noteq> 0" "deviation_threshold_meters api_detector \<noteq> 0"
      by (simp_all add: api_detector_def init_def)
    then show ?thesis using check_single_point_returns that by blast
  qed
  show ?thesis
    by (rule exI [of _ "\<lparr>tourist_id = req_tourist_id req, lat = req_lat req, lon = req_lon req,
          timestamp = req_timestamp req, is_anomaly = (length anomalies > 0),
          anomaly_type = (case anomalies of [] \<Rightarrow> ''normal'' | a # _ \<Rightarrow> an_type a)\<rparr>"])
       (simp add: check_anomaly_def Let_def a)
qed

lemma buffer_points_store_point:
  "buffer_points (store_point th tid p) tid' =
     (if tid' = tid
      then drop (length (buffer_points th tid @ [point_of p]) - 100)
             (buffer_points th tid @ [point_of p])
      else buffer_points th tid')"
  by (cases "th tid") (simp_all add: buffer_points_def store_point_def Let_def drop_map)

lemma store_point_None:
  "(store_point th tid p tid' = None) = (tid' \<noteq> tid \<and> th tid' = None)"
  by (simp add: store_point_def Let_def)

lemma check_anomaly_buffer_points:
  "buffer_points (fst (check_anomaly th req)) tid =
     drop (length (buffer_points th tid @ stored_points tid [req]) - 100)
       (buffer_points th tid @ stored_points tid [req])
   \<or> (stored_points tid [req] = [] \<and> fst (check_anomaly th req) tid = th tid)"
proof -
  obtain p where p: "tourist_id p = req_tourist_id req"
    "(lat p, lon p, timestamp p) = (req_lat req, req_lon req, req_timestamp req)"
    "fst (check_anomaly th req) =
           (if - 90 \<le> req_lat req \<and> req_lat req \<le> 90
               \<and> - 180 \<le> req_lon req \<and> req_lon req \<le> 180
            then store_point th (req_tourist_id req) p else th)"
    using check_anomaly_store [of req th] by blast
  have pt: "point_of p = (req_lat req, req_lon req, req_timestamp req)"
    using p(2) by (simp add: point_of_def)
  show ?thesis
  proof (cases "stored_points tid [req] = []")
    case True
    then have "fst (check_anomaly th req) tid = th tid"
      unfolding p(3) by (auto simp add: stored_points_def store_point_def Let_def)
    then show ?thesis using True by simp
  next
    case False
    then have v: "req_tourist_id req = tid" "- 90 \<le> req_lat req \<and> req_lat req \<le> 90
               \<and> - 180 \<le> req_lon req \<and> req_lon req \<le> 180"
      by (auto simp add: stored_points_def split: if_splits)
    have sp: "stored_points tid [req] = [point_of p]"
      using v by (simp add: stored_points_def pt)
    have "fst (check_anomaly th req) = store_point th tid p"
      unfolding p(3) using v by simp
    then show ?thesis
      by (simp add: buffer_points_store_point sp)
  qed
qed

lemma stored_points_Cons:
  "stored_points tid (req # reqs) = stored_points tid [req] @ stored_points tid reqs"
  by (simp add: stored_points_def)

lemma serve_buffer_points:
  "length (buffer_points th tid) \<le> 100 \<Longrightarrow>
   buffer_points (serve th reqs) tid =
     drop (length (buffer_points th tid @ stored_points tid reqs) - 100)
       (buffer_points th tid @ stored_points tid reqs)"
proof (induction reqs arbitrary: th)
  case Nil
  then show ?case by (simp add: stored_points_def)
next
  case (Cons req reqs)
  let ?th = "fst (check_anomaly th req)"
  from check_anomaly_buffer_points [of th req tid]
  show ?case
  proof
    assume a: "buffer_points ?th tid =
       drop (length (buffer_points th tid @ stored_points tid [req]) - 100)
         (buffer_points th tid @ stored_points tid [req])"
    then have "length (buffer_points ?th tid) \<le> 100"
      by simp
    then have "buffer_points (serve ?th reqs) tid =
       drop (length (buffer_points ?th tid @ stored_points tid reqs) - 100)
         (buffer_points ?th tid @ stored_points tid reqs)"
      by (rule Cons.IH)
    also have "\<dots> = drop (length ((buffer_points th tid @ stored_points tid [req])
                                @ stored_points tid reqs) - 100)
                     ((buffer_points th tid @ stored_points tid [req]) @ stored_points tid reqs)"
      unfolding a by (rule drop_last_append)
    finally show ?thesis
      by (simp add: stored_points_Cons [of tid req reqs])
  next
    assume a: "stored_points tid [req] = [] \<and> ?th tid = th tid"
    then have e: "buffer_points ?th tid = buffer_points th tid"
      by (simp add: buffer_points_def)
    then have "buffer_points (serve ?th reqs) tid =
       drop (length (buffer_points ?th tid @ stored_points tid reqs) - 100)
         (buffer_points ?th tid @ stored_points tid reqs)"
      using Cons.prems by (intro Cons.IH) simp
    then show ?thesis
      using a by (simp add: e stored_points_Cons [of tid req reqs])
  qed
qed

lemma check_anomaly_None:
  "(fst (check_anomaly th req) tid = None) = (th tid = None \<and> stored_points tid [req] = [])"
proof -
  obtain p where p:
    "fst (check_anomaly th req) =
           (if - 90 \<le> req_lat req \<and> req_lat req \<le> 90
               \<and> - 180 \<le> req_lon req \<and> req_lon req \<le> 180
            then store_point th (req_tourist_id req) p else th)"
    using check_anomaly_store [of req th] by blast
  show ?thesis
    unfolding p by (auto simp add: store_point_None stored_points_def)
qed

lemma serve_None:
  "(serve th reqs tid = None) = (th tid = None \<and> stored_points tid reqs = [])"
proof (induction reqs arbitrary: th)
  case Nil
  show ?case by (simp add: stored_points_def)
next
  case (Cons req reqs)
  show ?case
    by (simp add: Cons.IH check_anomaly_None stored_points_Cons [of tid req reqs])
qed

text \<open>
  C7. For every entity, after any number of requests served from an empty history, the
  buffer of the entity never holds more than 100 points, and it holds exactly the last 100
  of the points stored for the entity (all of them when there are fewer), in the order of
  their insertion: the oldest are evicted first.
\<close>

theorem history_buffer_bounded_fifo:
  "(case serve Map.empty reqs tid of
      None \<Rightarrow>
        filter (\<lambda>r. req_tourist_id r = tid \<and> - 90 \<le> req_lat r \<and> req_lat r \<le> 90
                     \<and> - 180 \<le> req_lon r \<and> req_lon r \<le> 180) reqs = []
    | Some buffer \<Rightarrow>
        length buffer \<le> 100
        \<and> map (\<lambda>p. (lat p, lon p, timestamp p)) buffer =
            (let points = map (\<lambda>r. (req_lat r, req_lon r, req_timestamp r))
                   (filter (\<lambda>r. req_tourist_id r = tid \<and> - 90 \<le> req_lat r \<and> req_lat r \<le> 90
                                 \<and> - 180 \<le> req_lon r \<and> req_lon r \<le> 180) reqs)
             in drop (length points - 100) points))"
proof (cases "serve Map.empty reqs tid")
  case None
  then show ?thesis
    using serve_None [of Map.empty reqs tid] by (simp add: stored_points_def)
next
  case (Some buffer)
  have "buffer_points (serve Map.empty reqs) tid =
     drop (length (buffer_points Map.empty tid @ stored_points tid reqs) - 100)
       (buffer_points Map.empty tid @ stored_points tid reqs)"
    by (rule serve_buffer_points) (simp add: buffer_points_def)
  then have m: "map point_of buffer =
     drop (length (stored_points tid reqs) - 100) (stored_points tid reqs)"
    using Some by (simp add: buffer_points_def)
  have "length (map point_of buffer) \<le> 100"
    unfolding m by simp
  then have l: "length buffer \<le> 100" by simp
  have pf: "point_of = (\<lambda>p. (lat p, lon p, timestamp p))"
    by (rule ext) (simp add: point_of_def)
  show ?thesis
    using Some l m unfolding pf stored_points_def by (simp add: Let_def)
qed

end
